theory Spec2Isabelle
  imports Main
begin

section \<open>The multi-check directive: data model\<close>

text \<open>
  The directive keeps a list of check boxes (the children of one UL element) in step with
  two bound arrays of its scope: \<open>available\<close> (the catalog) and \<open>selected\<close> (the selection).
  JavaScript values that the code reads or returns are kept as a small datatype; a thrown
  exception is the left injection of a sum.
\<close>

datatype js_error = TypeError

datatype js_value =
    Undefined
  | Bool bool
  | Num nat
  | Str string
  | DOMStringMap "(string \<times> string) list"

text \<open>
  An entry of \<open>available\<close>: a bare string, or an object with the two properties that
  \<open>attachItemElements\<close> destructures.
\<close>

datatype item =
    ItemString (text_of: string)
  | ItemObject (nodeValue: string) (displayText: string)

text \<open>
  One LI element as \<open>attachItemElements\<close> builds it: the expando property \<open>identifier\<close>,
  its \<open>data-*\<close> attributes (the code sets none), the value and the checked flag of the
  INPUT inside its LABEL, and the text appended to the LABEL. The INPUT's type is the
  constant \<open>checkbox\<close>, so \<open>querySelector('input[type="checkbox"]')\<close> on a row always
  finds that INPUT.
\<close>

record item_element =
  li_identifier :: string
  li_dataset :: "(string \<times> string) list"
  input_value :: string
  input_checked :: bool
  label_text :: string

text \<open>
  The state that the closures of \<open>link\<close> share: the children of
  \<open>childElements.listElement\<close>, the array bound to \<open>scope.selected\<close>, and the number of
  calls of \<open>randomHex\<close> made so far.
\<close>

record widget =
  children :: "item_element list"
  selected :: "string list"
  hex_calls :: nat

section \<open>JavaScript and DOM primitives used by the code\<close>

text \<open>\<open>Array.isArray\<close>: a bound value that is not an array is \<open>None\<close>.\<close>

definition isArray :: "'a list option \<Rightarrow> bool" where
  "isArray v = (case v of None \<Rightarrow> False | Some _ \<Rightarrow> True)"

text \<open>\<open>Array.prototype.indexOf\<close>: the first position holding the value, or -1.\<close>

fun indexOf :: "'a list \<Rightarrow> 'a \<Rightarrow> int" where
  "indexOf [] v = -1"
| "indexOf (x # xs) v = (if x = v then 0 else (let r = indexOf xs v in if r < 0 then -1 else r + 1))"

text \<open>\<open>Array.prototype.push\<close> of one value.\<close>

definition push :: "'a list \<Rightarrow> 'a \<Rightarrow> 'a list" where
  "push xs v = xs @ [v]"

text \<open>
  \<open>Array.prototype.splice(start, deleteCount)\<close> for a start that is not negative: the
  elements from \<open>start\<close> on, at most \<open>deleteCount\<close> of them, are removed.
\<close>

definition splice :: "'a list \<Rightarrow> nat \<Rightarrow> nat \<Rightarrow> 'a list" where
  "splice xs start deleteCount = take start xs @ drop (start + deleteCount) xs"

text \<open>
  The two property names that \<open>findItemIndex\<close> reads, and reading one of them. Reading
  any property of \<open>undefined\<close> throws a TypeError. A string, a number or a boolean is a
  primitive that has neither property: the read gives \<open>undefined\<close>. A DOMStringMap gives
  the \<open>data-*\<close> attribute stored under the name, if there is one.
\<close>

datatype property_name = Prop_dataset | Prop_identifier

fun property_key :: "property_name \<Rightarrow> string" where
  "property_key Prop_dataset = ''dataset''"
| "property_key Prop_identifier = ''identifier''"

fun get_property :: "js_value \<Rightarrow> property_name \<Rightarrow> js_error + js_value" where
  "get_property Undefined p = Inl TypeError"
| "get_property (DOMStringMap kv) p =
     Inr (case map_of kv (property_key p) of None \<Rightarrow> Undefined | Some v \<Rightarrow> Str v)"
| "get_property (Str s) p = Inr Undefined"
| "get_property (Num n) p = Inr Undefined"
| "get_property (Bool b) p = Inr Undefined"

text \<open>The decimal numeral of an array index, as a property key.\<close>

fun decimal :: "nat \<Rightarrow> string" where
  "decimal n =
     (if n < 10 then [char_of (48 + n)] else decimal (n div 10) @ [char_of (48 + n mod 10)])"

text \<open>
  The keys that \<open>for (... in collection)\<close> enumerates on an HTMLCollection of \<open>n\<close>
  elements: the indices as strings, then the enumerable members of the interface.
\<close>

definition for_in_keys :: "nat \<Rightarrow> string list" where
  "for_in_keys n = map decimal [0..<n] @ [''length'', ''item'', ''namedItem'']"

text \<open>
  Modelled from the spec: \<open>isObject\<close> of lib/core-toolkit.js, which is not among the
  sources. An Item has two representations, a bare string or an explicit pair; the test
  tells the pair from the string.
\<close>

fun isObject :: "item \<Rightarrow> bool" where
  "isObject (ItemObject nv dt) = True"
| "isObject (ItemString s) = False"

section \<open>The functions of the directive\<close>

subsection \<open>findItemIndex\<close>

text \<open>
  The loop of \<open>findItemIndex\<close>: \<open>child\<close> ranges over the keys of
  \<open>listElement.children\<close>, so \<open>child.dataset.identifier\<close> is read from a string.
\<close>

fun findItemIndex_loop :: "js_value \<Rightarrow> string list \<Rightarrow> nat \<Rightarrow> js_error + nat" where
  "findItemIndex_loop ident [] index = Inr index"
| "findItemIndex_loop ident (child # keys) index =
     (case get_property (Str child) Prop_dataset of
        Inl e \<Rightarrow> Inl e
      | Inr ds \<Rightarrow>
          (case get_property ds Prop_identifier of
             Inl e \<Rightarrow> Inl e
           | Inr v \<Rightarrow>
               if v = ident then Inr index
               else findItemIndex_loop ident keys (index + 1)))"

text \<open>
  \<open>findItemIndex(listElement, inputElement)\<close>; the second argument is given as the LI that
  \<open>inputElement.closest('li')\<close> finds.
\<close>

definition findItemIndex :: "item_element list \<Rightarrow> item_element \<Rightarrow> js_error + nat" where
  "findItemIndex listElement liElement =
     (case get_property (DOMStringMap (li_dataset liElement)) Prop_identifier of
        Inl e \<Rightarrow> Inl e
      | Inr ident \<Rightarrow> findItemIndex_loop ident (for_in_keys (length listElement)) 0)"

subsection \<open>attachItemElements\<close>

text \<open>
  The body of the loop: the LI for one item. \<open>randomHex\<close> (lib/core-toolkit.js, not among
  the sources) is a parameter: the string that its call number \<open>k\<close> returns. The label
  text is a no-break space (two bytes in UTF-8), a space and the display text.
\<close>

definition createItemElement :: "string \<Rightarrow> item \<Rightarrow> string list \<Rightarrow> item_element" where
  "createItemElement hex itm sel =
     (let (nv, dt) = (if isObject itm then (nodeValue itm, displayText itm)
                      else (text_of itm, text_of itm))
      in \<lparr> li_identifier = hex,
           li_dataset = [],
           input_value = nv,
           input_checked = (indexOf sel nv \<ge> 0),
           label_text = [char_of (194::nat), char_of (160::nat)] @ '' '' @ dt \<rparr>)"

fun attachItemElements_loop ::
  "(nat \<Rightarrow> string) \<Rightarrow> item list \<Rightarrow> string list \<Rightarrow> item_element list \<times> nat
     \<Rightarrow> item_element list \<times> nat" where
  "attachItemElements_loop randomHex [] sel st = st"
| "attachItemElements_loop randomHex (itm # rest) sel st =
     attachItemElements_loop randomHex rest sel
       (fst st @ [createItemElement (randomHex (snd st)) itm sel], Suc (snd st))"

text \<open>
  \<open>attachItemElements(listElement, available, selected)\<close>: returns \<open>available\<close>, with the
  list element and the count of \<open>randomHex\<close> calls as left by the loop. Its only caller
  passes \<open>scope.selected\<close>, an array, so the default \<open>selected = []\<close> is never used.
\<close>

definition attachItemElements ::
  "(nat \<Rightarrow> string) \<Rightarrow> item_element list \<times> nat \<Rightarrow> item list \<Rightarrow> string list
     \<Rightarrow> item list \<times> (item_element list \<times> nat)" where
  "attachItemElements randomHex st available sel =
     (available, attachItemElements_loop randomHex available sel st)"

subsection \<open>clearItemElements\<close>

definition firstChild :: "'a list \<Rightarrow> 'a option" where
  "firstChild cs = (case cs of [] \<Rightarrow> None | c # _ \<Rightarrow> Some c)"

definition lastChild :: "'a list \<Rightarrow> 'a option" where
  "lastChild cs = (if cs = [] then None else Some (last cs))"

text \<open>
  \<open>listElement.removeChild(listElement.lastChild)\<close>: \<open>removeChild\<close> throws a TypeError when
  its argument is \<open>null\<close>, and otherwise takes the last child out of the list.
\<close>

definition removeLastChild :: "'a list \<Rightarrow> js_error + 'a list" where
  "removeLastChild cs =
     (case lastChild cs of None \<Rightarrow> Inl TypeError | Some c \<Rightarrow> Inr (butlast cs))"

function clearItemElements_loop :: "'a list \<Rightarrow> js_error + 'a list" where
  "clearItemElements_loop cs =
     (if firstChild cs \<noteq> None then
        (case removeLastChild cs of
           Inl e \<Rightarrow> Inl e
         | Inr cs' \<Rightarrow> clearItemElements_loop cs')
      else Inr cs)"
  by pat_completeness auto
termination
  by (relation "measure length")
     (auto simp: firstChild_def removeLastChild_def lastChild_def split: list.splits if_splits)

text \<open>\<open>clearItemElements(listElement)\<close>: the constant \<open>length\<close> it returns, and the list.\<close>

definition clearItemElements :: "'a list \<Rightarrow> js_error + nat \<times> 'a list" where
  "clearItemElements listElement =
     (case clearItemElements_loop listElement of
        Inl e \<Rightarrow> Inl e
      | Inr cs \<Rightarrow> Inr (0, cs))"

subsection \<open>checkSelectedItems\<close>

fun checkSelectedItems_loop :: "item_element list \<Rightarrow> string list \<Rightarrow> item_element list" where
  "checkSelectedItems_loop [] sel = []"
| "checkSelectedItems_loop (child # rest) sel =
     (if indexOf sel (input_value child) \<ge> 0 then child\<lparr>input_checked := True\<rparr> else child)
       # checkSelectedItems_loop rest sel"

text \<open>\<open>checkSelectedItems(listElement, selected)\<close>: \<open>counter\<close> is never incremented.\<close>

definition checkSelectedItems :: "item_element list \<Rightarrow> string list \<Rightarrow> nat \<times> item_element list" where
  "checkSelectedItems listElement sel = (0, checkSelectedItems_loop listElement sel)"

subsection \<open>The closures of link\<close>

definition onSelectedListUpdated ::
  "widget \<Rightarrow> string list \<Rightarrow> string list option \<Rightarrow> js_value \<times> widget" where
  "onSelectedListUpdated w current previous =
     (if \<not> isArray previous \<or> length current \<noteq> length (the previous) then
        (let (counter, cs) = checkSelectedItems (children w) current
         in (Num counter, w\<lparr>children := cs\<rparr>))
      else (Bool False, w))"

text \<open>
  The watch listener of \<open>available\<close>. Its result is the exception it throws or the value it
  returns, with the state it leaves.
\<close>

definition onAvailableListUpdated ::
  "(nat \<Rightarrow> string) \<Rightarrow> widget \<Rightarrow> item list option \<Rightarrow> item list option
     \<Rightarrow> (js_error + js_value) \<times> widget" where
  "onAvailableListUpdated randomHex w current previous =
     (case clearItemElements (children w) of
        Inl e \<Rightarrow> (Inl e, w)
      | Inr cleared \<Rightarrow>
          (let w1 = w\<lparr>children := snd cleared\<rparr> in
           if \<not> isArray current \<or> length (the current) = 0 then (Inr (Bool False), w1)
           else if \<not> isArray previous \<or> length (the current) \<noteq> length (the previous) then
             (let (items, st) =
                    attachItemElements randomHex (children w1, hex_calls w1) (the current)
                      (selected w1)
              in (Inr (Bool (length items \<ge> 1)), w1\<lparr>children := fst st, hex_calls := snd st\<rparr>))
           else (Inr (Bool False), w1)))"

text \<open>
  The target of a click inside the list: the UL itself, an LI, the LABEL of an LI, or the
  INPUT of an LI. These are all the elements the directive puts under the UL. An INPUT
  target carries its row in the state in which the event finds it (the browser has
  toggled the check box before the listener runs).
\<close>

datatype event_target =
    ListTarget
  | ItemTarget item_element
  | LabelTarget item_element
  | InputTarget item_element

fun nodeName :: "event_target \<Rightarrow> string" where
  "nodeName ListTarget = ''UL''"
| "nodeName (ItemTarget li) = ''LI''"
| "nodeName (LabelTarget li) = ''LABEL''"
| "nodeName (InputTarget li) = ''INPUT''"

text \<open>
  The click listener. Its result is the exception it throws or the value it returns, with
  the state it leaves. For a target that is no INPUT the test on \<open>nodeName\<close> always
  takes the first branch.
\<close>

fun clickListener :: "widget \<Rightarrow> event_target \<Rightarrow> (js_error + js_value) \<times> widget" where
  "clickListener w (InputTarget li) =
     (if nodeName (InputTarget li) \<noteq> ''INPUT'' then (Inr (Bool False), w)
      else if input_checked li = True then
        (Inr Undefined, w\<lparr>selected := push (selected w) (input_value li)\<rparr>)
      else
        (case findItemIndex (children w) li of
           Inl e \<Rightarrow> (Inl e, w)
         | Inr position \<Rightarrow> (Inr Undefined, w\<lparr>selected := splice (selected w) position 1\<rparr>)))"
| "clickListener w target =
     (if nodeName target \<noteq> ''INPUT'' then (Inr (Bool False), w) else (Inr Undefined, w))"

text \<open>
  What \<open>link\<close> sees of its arguments: the two bound values, and the registrations made on
  the host (event listeners on the list element, watches on the scope).
\<close>

record scope =
  scope_selected :: "string list option"
  scope_available :: "item list option"

record host =
  listeners :: "string list"
  watches :: "string list"
  rendered :: "item_element list"

definition link :: "scope \<Rightarrow> host \<Rightarrow> js_value \<times> host" where
  "link sc h =
     (if \<not> isArray (scope_selected sc) \<or> \<not> isArray (scope_available sc) then (Bool False, h)
      else (Undefined,
            h\<lparr>listeners := listeners h @ [''click''],
              watches := watches h @ [''selected'', ''available'']\<rparr>))"

section \<open>Facts about the primitives and the loops\<close>

declare decimal.simps [simp del]

declare clearItemElements_loop.simps [simp del]

lemma indexOf_nonneg_iff: "(indexOf xs v \<ge> 0) = (v \<in> set xs)"
  by (induction xs) (auto simp: Let_def)

text \<open>
  The loop of \<open>clearItemElements\<close> ends without an exception, and with no child left.
\<close>

lemma clearItemElements_loop_empty: "clearItemElements_loop cs = Inr []"
proof (induction cs rule: clearItemElements_loop.induct)
  case (1 cs)
  show ?case
  proof (cases "firstChild cs \<noteq> None")
    case True
    then have ne: "cs \<noteq> []" by (auto simp: firstChild_def)
    then have rm: "removeLastChild cs = Inr (butlast cs)"
      by (simp add: removeLastChild_def lastChild_def)
    with 1 True have "clearItemElements_loop (butlast cs) = Inr []" by simp
    with True rm show ?thesis by (subst clearItemElements_loop.simps) simp
  next
    case False
    then have "cs = []" by (simp add: firstChild_def split: list.splits)
    with False show ?thesis by (subst clearItemElements_loop.simps) simp
  qed
qed

lemma clearItemElements_eq: "clearItemElements cs = Inr (0, [])"
  by (simp add: clearItemElements_def clearItemElements_loop_empty)

text \<open>
  An HTMLCollection always has a key to enumerate, and the first turn of the loop of
  \<open>findItemIndex\<close> reads \<open>identifier\<close> from \<open>undefined\<close>.
\<close>

lemma for_in_keys_nonempty: "\<exists>k ks. for_in_keys n = k # ks"
  by (cases "map decimal [0..<n]") (simp_all add: for_in_keys_def)

lemma findItemIndex_loop_throws:
  "findItemIndex_loop ident (child # keys) index = Inl TypeError"
  by simp

lemma findItemIndex_throws: "findItemIndex listElement liElement = Inl TypeError"
proof -
  obtain k ks where "for_in_keys (length listElement) = k # ks"
    using for_in_keys_nonempty by blast
  then show ?thesis
    by (simp add: findItemIndex_def)
qed

text \<open>The rows that the loop of \<open>attachItemElements\<close> appends, in closed form.\<close>

lemma attachItemElements_loop_eq:
  "attachItemElements_loop rh items sel (cs, k) =
     (cs @ map (\<lambda>(j, itm). createItemElement (rh j) itm sel) (enumerate k items),
      k + length items)"
  by (induction items arbitrary: cs k) simp_all

lemma checkSelectedItems_loop_map:
  "checkSelectedItems_loop cs sel =
     map (\<lambda>c. if input_value c \<in> set sel then c\<lparr>input_checked := True\<rparr> else c) cs"
  by (induction cs) (simp_all add: indexOf_nonneg_iff)

section \<open>The claims\<close>

subsection \<open>Catalog notifications\<close>

text \<open>
  C1, as stated, fails: with one row rendered, a notification whose current and previous
  arrays both have length one leaves a surface of a different node count.
\<close>

theorem catalog_equal_length_counterexample:
  "length (children (snd (onAvailableListUpdated decimal
      \<lparr>children = [createItemElement ''0'' (ItemString ''a'') []], selected = [], hex_calls = 1\<rparr>
      (Some [ItemString ''b'']) (Some [ItemString ''a'']))))
   \<noteq> length (children
      \<lparr>children = [createItemElement ''0'' (ItemString ''a'') []], selected = [], hex_calls = 1\<rparr>)"
  by (simp add: onAvailableListUpdated_def clearItemElements_eq isArray_def)

text \<open>
  C1 (amended): for every catalog notification where previous is an array and current is
  an array of the same length, the listener tears the list down and skips the rebuild:
  it returns false, the render surface is empty afterwards (whatever it held before), no
  row is created, and the selection is untouched.
\<close>

theorem catalog_equal_length_clears:
  assumes "current = Some cur" and "previous = Some prev" and "length cur = length prev"
  shows "onAvailableListUpdated rh w current previous = (Inr (Bool False), w\<lparr>children := []\<rparr>)"
  using assms
  by (simp add: onAvailableListUpdated_def clearItemElements_eq
        isArray_def Let_def)

text \<open>At one rendered row and two catalogs of length one, the row is gone.\<close>

theorem catalog_equal_length_clears_witness:
  "length (children \<lparr>children = [createItemElement ''0'' (ItemString ''a'') []],
                      selected = [], hex_calls = 1\<rparr>) = 1
   \<and> onAvailableListUpdated decimal
        \<lparr>children = [createItemElement ''0'' (ItemString ''a'') []], selected = [], hex_calls = 1\<rparr>
        (Some [ItemString ''b'']) (Some [ItemString ''a''])
     = (Inr (Bool False), \<lparr>children = [], selected = [], hex_calls = 1\<rparr>)"
proof -
  have b: "length [ItemString ''b''] = length [ItemString ''a'']" by simp
  show ?thesis
    using catalog_equal_length_clears [OF refl refl b] by simp
qed

text \<open>
  C4: for every catalog notification where current is a non-empty array and previous is
  absent or of another length, the listener returns true and the render surface then holds
  exactly one row per item of current, in catalog order: row \<open>i\<close> carries the value of item
  \<open>i\<close>, and is checked exactly when that value is in the selection at that moment.
\<close>

theorem catalog_rebuild:
  assumes "current = Some cur" and "cur \<noteq> []"
    and "case previous of None \<Rightarrow> True | Some prev \<Rightarrow> length cur \<noteq> length prev"
  shows "fst (onAvailableListUpdated rh w current previous) = Inr (Bool True)
    \<and> length (children (snd (onAvailableListUpdated rh w current previous))) = length cur
    \<and> (\<forall>i < length cur.
          input_value (children (snd (onAvailableListUpdated rh w current previous)) ! i)
            = (case cur ! i of ItemString s \<Rightarrow> s | ItemObject nv dt \<Rightarrow> nv)
        \<and> input_checked (children (snd (onAvailableListUpdated rh w current previous)) ! i)
            = ((case cur ! i of ItemString s \<Rightarrow> s | ItemObject nv dt \<Rightarrow> nv) \<in> set (selected w)))"
proof -
  have run: "onAvailableListUpdated rh w current previous =
      (Inr (Bool True),
       w\<lparr>children := map (\<lambda>(j, itm). createItemElement (rh j) itm (selected w))
                        (enumerate (hex_calls w) cur),
         hex_calls := hex_calls w + length cur\<rparr>)"
    using assms
    by (cases cur; cases previous)
       (simp_all add: onAvailableListUpdated_def clearItemElements_def
          clearItemElements_loop_empty attachItemElements_def attachItemElements_loop_eq
          isArray_def Let_def)
  have row: "input_value (createItemElement h itm sel)
               = (case itm of ItemString s \<Rightarrow> s | ItemObject nv dt \<Rightarrow> nv)
           \<and> input_checked (createItemElement h itm sel)
               = ((case itm of ItemString s \<Rightarrow> s | ItemObject nv dt \<Rightarrow> nv) \<in> set sel)"
    for h itm sel
    by (cases itm) (simp_all add: createItemElement_def indexOf_nonneg_iff)
  show ?thesis
    unfolding run by (simp add: nth_enumerate_eq row)
qed

text \<open>
  The catalog of an object and a bare string, mounted for the first time with \<open>b\<close>
  selected: two rows, \<open>a\<close> unchecked and \<open>b\<close> checked.
\<close>

theorem catalog_rebuild_witness:
  "fst (onAvailableListUpdated decimal \<lparr>children = [], selected = [''b''], hex_calls = 0\<rparr>
          (Some [ItemObject ''a'' ''A'', ItemString ''b'']) None) = Inr (Bool True)
   \<and> length (children (snd (onAvailableListUpdated decimal
          \<lparr>children = [], selected = [''b''], hex_calls = 0\<rparr>
          (Some [ItemObject ''a'' ''A'', ItemString ''b'']) None))) = 2
   \<and> input_value (children (snd (onAvailableListUpdated decimal
          \<lparr>children = [], selected = [''b''], hex_calls = 0\<rparr>
          (Some [ItemObject ''a'' ''A'', ItemString ''b'']) None)) ! 0) = ''a''
   \<and> input_checked (children (snd (onAvailableListUpdated decimal
          \<lparr>children = [], selected = [''b''], hex_calls = 0\<rparr>
          (Some [ItemObject ''a'' ''A'', ItemString ''b'']) None)) ! 0) = False
   \<and> input_value (children (snd (onAvailableListUpdated decimal
          \<lparr>children = [], selected = [''b''], hex_calls = 0\<rparr>
          (Some [ItemObject ''a'' ''A'', ItemString ''b'']) None)) ! 1) = ''b''
   \<and> input_checked (children (snd (onAvailableListUpdated decimal
          \<lparr>children = [], selected = [''b''], hex_calls = 0\<rparr>
          (Some [ItemObject ''a'' ''A'', ItemString ''b'']) None)) ! 1) = True"
proof -
  let ?cur = "[ItemObject ''a'' ''A'', ItemString ''b'']"
  let ?w = "\<lparr>children = [], selected = [''b''], hex_calls = 0\<rparr>"
  have a: "?cur \<noteq> []" by simp
  have b: "case (None :: item list option) of None \<Rightarrow> True
           | Some prev \<Rightarrow> length ?cur \<noteq> length prev" by simp
  note t = catalog_rebuild [OF refl a b, of decimal ?w]
  from t have all: "\<forall>i < length ?cur.
          input_value (children (snd (onAvailableListUpdated decimal ?w (Some ?cur) None)) ! i)
            = (case ?cur ! i of ItemString s \<Rightarrow> s | ItemObject nv dt \<Rightarrow> nv)
        \<and> input_checked (children (snd (onAvailableListUpdated decimal ?w (Some ?cur) None)) ! i)
            = ((case ?cur ! i of ItemString s \<Rightarrow> s | ItemObject nv dt \<Rightarrow> nv) \<in> set (selected ?w))"
    by blast
  from all [rule_format, of 0] all [rule_format, of 1] t show ?thesis by simp
qed

text \<open>
  C8: for every catalog notification where current is not an array or is empty, the
  listener returns false, the render surface is empty afterwards, and no row is created
  (no identifier is drawn).
\<close>

theorem catalog_empty_noop:
  assumes "\<not> isArray current \<or> the current = []"
  shows "onAvailableListUpdated rh w current previous = (Inr (Bool False), w\<lparr>children := []\<rparr>)"
  using assms
  by (auto simp: onAvailableListUpdated_def clearItemElements_eq Let_def)

text \<open>An empty array and a value that is no array, each against one rendered row.\<close>

theorem catalog_empty_noop_witness:
  "onAvailableListUpdated decimal
      \<lparr>children = [createItemElement ''0'' (ItemString ''a'') []], selected = [], hex_calls = 1\<rparr>
      (Some []) (Some [ItemString ''a''])
    = (Inr (Bool False), \<lparr>children = [], selected = [], hex_calls = 1\<rparr>)
   \<and> onAvailableListUpdated decimal
      \<lparr>children = [createItemElement ''0'' (ItemString ''a'') []], selected = [], hex_calls = 1\<rparr>
      None (Some [ItemString ''a''])
    = (Inr (Bool False), \<lparr>children = [], selected = [], hex_calls = 1\<rparr>)"
proof -
  have a: "\<not> isArray (Some ([] :: item list)) \<or> the (Some ([] :: item list)) = []" by simp
  have b: "\<not> isArray (None :: item list option) \<or> the (None :: item list option) = []"
    by (simp add: isArray_def)
  show ?thesis
    using catalog_empty_noop [OF a] catalog_empty_noop [OF b] by simp
qed

text \<open>
  C9: clearing is idempotent. On an empty list \<open>clearItemElements\<close> returns without an
  exception and leaves the list empty; on any list it returns without an exception with
  the list empty; and clearing the list it leaves gives the same result again.
\<close>

theorem clear_idempotent:
  "clearItemElements ([] :: item_element list) = Inr (0, [])
   \<and> clearItemElements cs = Inr (0, [])
   \<and> clearItemElements (snd (projr (clearItemElements cs))) = clearItemElements cs"
  by (simp add: clearItemElements_eq)

text \<open>The same at a list of one row.\<close>

theorem clear_idempotent_witness:
  "clearItemElements ([] :: item_element list) = Inr (0, [])
   \<and> clearItemElements [createItemElement ''0'' (ItemString ''a'') []] = Inr (0, [])
   \<and> clearItemElements
         (snd (projr (clearItemElements [createItemElement ''0'' (ItemString ''a'') []])))
       = clearItemElements [createItemElement ''0'' (ItemString ''a'') []]"
  by (rule clear_idempotent)

subsection \<open>Selection notifications\<close>

text \<open>
  C2, as stated, fails: a row for \<open>a\<close> that is checked stays checked when the selection
  goes from \<open>[a]\<close> to the empty array, although \<open>a\<close> is not in the new selection.
\<close>

theorem selection_remark_counterexample:
  "input_checked (children (snd (onSelectedListUpdated
      \<lparr>children = [createItemElement ''0'' (ItemString ''a'') [''a'']],
        selected = [], hex_calls = 1\<rparr> [] (Some [''a'']))) ! 0)
   \<noteq> (input_value (createItemElement ''0'' (ItemString ''a'') [''a'']) \<in> set ([] :: string list))"
  by (simp add: onSelectedListUpdated_def checkSelectedItems_def createItemElement_def isArray_def)

text \<open>
  C2 (amended): for every selection notification in which previous is absent or of
  another length than current, the pass keeps the rows and their values, and afterwards a
  row is checked exactly when it was checked before the pass or its value is in the new
  selection. So every row whose value is in the new selection is checked, and a row whose
  value is not in it keeps the flag it had.
\<close>

theorem selection_remark_checks_members:
  assumes "\<not> isArray previous \<or> length current \<noteq> length (the previous)"
    and "i < length (children w)"
  shows "length (children (snd (onSelectedListUpdated w current previous))) = length (children w)
    \<and> input_value (children (snd (onSelectedListUpdated w current previous)) ! i)
        = input_value (children w ! i)
    \<and> input_checked (children (snd (onSelectedListUpdated w current previous)) ! i)
        = (input_checked (children w ! i) \<or> input_value (children w ! i) \<in> set current)"
  using assms
  by (auto simp: onSelectedListUpdated_def checkSelectedItems_def checkSelectedItems_loop_map)

text \<open>
  Two unchecked rows \<open>a\<close> and \<open>b\<close>, and the selection going from the empty array to
  \<open>[b]\<close>: \<open>b\<close> becomes checked, \<open>a\<close> stays unchecked.
\<close>

theorem selection_remark_checks_members_witness:
  "input_checked (children (snd (onSelectedListUpdated
      \<lparr>children = [createItemElement ''0'' (ItemString ''a'') [],
                    createItemElement ''1'' (ItemString ''b'') []],
        selected = [''b''], hex_calls = 2\<rparr> [''b''] (Some []))) ! 1) = True
   \<and> input_checked (children (snd (onSelectedListUpdated
      \<lparr>children = [createItemElement ''0'' (ItemString ''a'') [],
                    createItemElement ''1'' (ItemString ''b'') []],
        selected = [''b''], hex_calls = 2\<rparr> [''b''] (Some []))) ! 0) = False"
proof -
  let ?w = "\<lparr>children = [createItemElement ''0'' (ItemString ''a'') [],
                    createItemElement ''1'' (ItemString ''b'') []],
        selected = [''b''], hex_calls = 2\<rparr>"
  have a: "\<not> isArray (Some ([] :: string list))
           \<or> length [''b''] \<noteq> length (the (Some ([] :: string list)))" by simp
  have i0: "0 < length (children ?w)" and i1: "1 < length (children ?w)" by simp_all
  show ?thesis
    using selection_remark_checks_members [OF a i0] selection_remark_checks_members [OF a i1]
    by (simp add: createItemElement_def)
qed

text \<open>
  C10: the pass is monotone in the checked direction. For every selection notification
  and every rendered row, a row that is checked before is checked after, whether or not
  its value is in the new selection; the number of rows does not change.
\<close>

theorem selection_remark_monotone:
  assumes "i < length (children w)" and "input_checked (children w ! i)"
  shows "length (children (snd (onSelectedListUpdated w current previous))) = length (children w)
    \<and> input_checked (children (snd (onSelectedListUpdated w current previous)) ! i)"
  using assms
  by (auto simp: onSelectedListUpdated_def checkSelectedItems_def checkSelectedItems_loop_map)

text \<open>A checked row \<open>a\<close> and the selection going from \<open>[a]\<close> to the empty array.\<close>

theorem selection_remark_monotone_witness:
  "input_checked (children (snd (onSelectedListUpdated
      \<lparr>children = [createItemElement ''0'' (ItemString ''a'') [''a'']],
        selected = [], hex_calls = 1\<rparr> [] (Some [''a'']))) ! 0)"
proof -
  let ?w = "\<lparr>children = [createItemElement ''0'' (ItemString ''a'') [''a'']],
        selected = [], hex_calls = 1\<rparr>"
  have i0: "0 < length (children ?w)" by simp
  have c: "input_checked (children ?w ! 0)" by (simp add: createItemElement_def)
  show ?thesis
    using selection_remark_monotone [OF i0 c] by simp
qed

subsection \<open>Clicks\<close>

text \<open>
  C3: on a click that unchecks a row, the code does not remove an entry of the selection.
  \<open>findItemIndex\<close> throws a TypeError on the first turn of its loop, so the listener ends
  with that exception and leaves the selection as it was.
\<close>

theorem uncheck_throws:
  assumes "input_checked li = False"
  shows "clickListener w (InputTarget li) = (Inl TypeError, w)"
  using assms by (simp add: findItemIndex_throws)

text \<open>
  Rows \<open>a\<close> and \<open>b\<close> with the selection \<open>[b, a]\<close>, and \<open>b\<close> unchecked by the click: the
  selection is still \<open>[b, a]\<close>.
\<close>

theorem uncheck_throws_witness:
  "clickListener
     \<lparr>children = [createItemElement ''0'' (ItemObject ''a'' ''A'') [''b'', ''a''],
                   (createItemElement ''1'' (ItemObject ''b'' ''B'') [''b''])
                     \<lparr>input_checked := False\<rparr>],
       selected = [''b'', ''a''], hex_calls = 2\<rparr>
     (InputTarget ((createItemElement ''1'' (ItemObject ''b'' ''B'') [''b''])
                     \<lparr>input_checked := False\<rparr>))
   = (Inl TypeError,
      \<lparr>children = [createItemElement ''0'' (ItemObject ''a'' ''A'') [''b'', ''a''],
                   (createItemElement ''1'' (ItemObject ''b'' ''B'') [''b''])
                     \<lparr>input_checked := False\<rparr>],
       selected = [''b'', ''a''], hex_calls = 2\<rparr>)"
proof -
  have a: "input_checked ((createItemElement ''1'' (ItemObject ''b'' ''B'') [''b''])
                     \<lparr>input_checked := False\<rparr>) = False" by simp
  show ?thesis
    by (rule uncheck_throws [OF a])
qed

text \<open>
  C5: on a click that checks a row whose INPUT carries the value \<open>v\<close>, the listener returns
  without an exception and the selection afterwards is the selection before with \<open>v\<close>
  appended as its last element; nothing else of the state changes.
\<close>

theorem check_appends:
  assumes "input_checked li"
  shows "clickListener w (InputTarget li)
           = (Inr Undefined, w\<lparr>selected := selected w @ [input_value li]\<rparr>)"
  using assms by (simp add: push_def)

text \<open>Rows \<open>a\<close> and \<open>b\<close> with the selection \<open>[b]\<close>, and \<open>a\<close> checked by the click.\<close>

theorem check_appends_witness:
  "selected (snd (clickListener
     \<lparr>children = [(createItemElement ''0'' (ItemObject ''a'' ''A'') [''b''])
                     \<lparr>input_checked := True\<rparr>,
                   createItemElement ''1'' (ItemObject ''b'' ''B'') [''b'']],
       selected = [''b''], hex_calls = 2\<rparr>
     (InputTarget ((createItemElement ''0'' (ItemObject ''a'' ''A'') [''b''])
                     \<lparr>input_checked := True\<rparr>)))) = [''b'', ''a'']"
proof -
  have a: "input_checked ((createItemElement ''0'' (ItemObject ''a'' ''A'') [''b''])
                     \<lparr>input_checked := True\<rparr>)" by simp
  show ?thesis
    by (subst check_appends [OF a]) (simp add: createItemElement_def)
qed

text \<open>
  C6: a click whose target is not an INPUT (the check boxes are the only INPUT elements
  under the list) is ignored: the listener returns false without an exception, and the
  selection and the rows are unchanged.
\<close>

theorem non_input_ignored:
  assumes "nodeName target \<noteq> ''INPUT''"
  shows "clickListener w target = (Inr (Bool False), w)"
  using assms by (cases target) simp_all

text \<open>A click on the LABEL of a row.\<close>

theorem non_input_ignored_witness:
  "clickListener \<lparr>children = [createItemElement ''0'' (ItemString ''a'') []],
                   selected = [''b''], hex_calls = 1\<rparr>
     (LabelTarget (createItemElement ''0'' (ItemString ''a'') []))
   = (Inr (Bool False),
      \<lparr>children = [createItemElement ''0'' (ItemString ''a'') []],
        selected = [''b''], hex_calls = 1\<rparr>)"
proof -
  have a: "nodeName (LabelTarget (createItemElement ''0'' (ItemString ''a'') [])) \<noteq> ''INPUT''"
    by simp
  show ?thesis
    by (rule non_input_ignored [OF a])
qed

subsection \<open>Linking\<close>

text \<open>
  C7: when the bound \<open>selected\<close> or the bound \<open>available\<close> is not an array, \<open>link\<close> returns
  false and registers nothing: no event listener, no watch, and no row is rendered.
\<close>

theorem link_refuses:
  assumes "\<not> isArray (scope_selected sc) \<or> \<not> isArray (scope_available sc)"
  shows "link sc h = (Bool False, h)"
  using assms by (simp add: link_def)

text \<open>Each of the two bindings missing in turn.\<close>

theorem link_refuses_witness:
  "link \<lparr>scope_selected = None, scope_available = Some [ItemString ''a'']\<rparr>
        \<lparr>listeners = [], watches = [], rendered = []\<rparr>
     = (Bool False, \<lparr>listeners = [], watches = [], rendered = []\<rparr>)
   \<and> link \<lparr>scope_selected = Some [''a''], scope_available = None\<rparr>
        \<lparr>listeners = [], watches = [], rendered = []\<rparr>
     = (Bool False, \<lparr>listeners = [], watches = [], rendered = []\<rparr>)"
proof -
  have a: "\<not> isArray (scope_selected \<lparr>scope_selected = None, scope_available = Some [ItemString ''a'']\<rparr>)
         \<or> \<not> isArray (scope_available \<lparr>scope_selected = None, scope_available = Some [ItemString ''a'']\<rparr>)"
    by (simp add: isArray_def)
  have b: "\<not> isArray (scope_selected \<lparr>scope_selected = Some [''a''], scope_available = None\<rparr>)
         \<or> \<not> isArray (scope_available \<lparr>scope_selected = Some [''a''], scope_available = None\<rparr>)"
    by (simp add: isArray_def)
  show ?thesis
    using link_refuses [OF a] link_refuses [OF b] by simp
qed

end
